theory Spec2Isabelle
  imports Complex_Main
begin

section \<open>Python values\<close>

text \<open>
  A Python \<open>str\<close> is a sequence of Unicode code points and \<open>len\<close> counts code points,
  so a string is a list of code point numbers.  \<open>str\<close> turns an ASCII literal into
  such a list.
\<close>

type_synonym pystr = "nat list"

definition str :: "string \<Rightarrow> pystr" where
  "str s = map of_char s"

text \<open>
  The values \<open>json.load\<close> produces, which are also the values a metadata dict holds.
  Floats are idealised as reals.  The items of a nested dict are kept as a list of pairs.
\<close>

datatype pyval =
    PNone
  | PBool bool
  | PInt int
  | PFloat real
  | PStr pystr
  | PList "pyval list"
  | PDict "(pystr \<times> pyval) list"

text \<open>The exceptions the three modules can end with.  \<open>External\<close> is any exception
  raised inside the embedding provider's client or inside the vector store, with the
  text \<open>str(e)\<close> gives for it.\<close>

datatype exn =
    TypeError
  | AttributeError
  | IndexError
  | ValueError pystr
  | FileNotFoundError pystr
  | External pystr

text \<open>\<open>str(e)\<close>, where the message is known.\<close>

fun exn_str :: "exn \<Rightarrow> pystr" where
  "exn_str (External m) = m"
| "exn_str (ValueError m) = m"
| "exn_str (FileNotFoundError m) = m"
| "exn_str _ = []"

text \<open>A record of the input file and a metadata dict are dicts with string keys.\<close>

type_synonym pydict = "pystr \<rightharpoonup> pyval"

text \<open>Truth value testing (\<open>if v:\<close>, \<open>not v\<close>, \<open>a or b\<close>).\<close>

fun truthy :: "pyval \<Rightarrow> bool" where
  "truthy PNone = False"
| "truthy (PBool b) = b"
| "truthy (PInt i) = (i \<noteq> 0)"
| "truthy (PFloat r) = (r \<noteq> 0)"
| "truthy (PStr s) = (s \<noteq> [])"
| "truthy (PList xs) = (xs \<noteq> [])"
| "truthy (PDict kvs) = (kvs \<noteq> [])"


text \<open>\<open>d.get(k)\<close> and \<open>d.get(k, default)\<close>.\<close>

definition dict_get :: "('k \<rightharpoonup> pyval) \<Rightarrow> 'k \<Rightarrow> pyval" where
  "dict_get d k = (case d k of None \<Rightarrow> PNone | Some v \<Rightarrow> v)"

definition dict_get_default :: "('k \<rightharpoonup> pyval) \<Rightarrow> 'k \<Rightarrow> pyval \<Rightarrow> pyval" where
  "dict_get_default d k dflt = (case d k of None \<Rightarrow> dflt | Some v \<Rightarrow> v)"

subsection \<open>String operations\<close>

text \<open>The decimal digits of a natural number, as \<open>str(i)\<close> writes them.\<close>

fun decimal :: "nat \<Rightarrow> pystr" where
  "decimal n = (if n < 10 then [48 + n] else decimal (n div 10) @ [48 + n mod 10])"

text \<open>\<open>s.replace(old, new)\<close> where \<open>old\<close> and \<open>new\<close> are one character each.\<close>

definition replace_char :: "nat \<Rightarrow> nat \<Rightarrow> pystr \<Rightarrow> pystr" where
  "replace_char old new s = map (\<lambda>c. if c = old then new else c) s"

text \<open>\<open>str.title()\<close> on ASCII text (it is only applied to the nine ASCII field names):
  a cased character is lower-cased when it follows a cased character and upper-cased
  otherwise.\<close>

definition is_cased :: "nat \<Rightarrow> bool" where
  "is_cased c = ((65 \<le> c \<and> c \<le> 90) \<or> (97 \<le> c \<and> c \<le> 122))"

definition to_upper :: "nat \<Rightarrow> nat" where
  "to_upper c = (if 97 \<le> c \<and> c \<le> 122 then c - 32 else c)"

definition to_lower :: "nat \<Rightarrow> nat" where
  "to_lower c = (if 65 \<le> c \<and> c \<le> 90 then c + 32 else c)"

fun title_from :: "bool \<Rightarrow> pystr \<Rightarrow> pystr" where
  "title_from prev_cased [] = []"
| "title_from prev_cased (c # cs) =
     (if prev_cased then to_lower c else to_upper c) # title_from (is_cased c) cs"

definition py_title :: "pystr \<Rightarrow> pystr" where
  "py_title s = title_from False s"

text \<open>The code points \<open>str.isspace\<close> accepts; \<open>str.strip()\<close> removes them from both
  ends.\<close>

definition py_isspace :: "nat \<Rightarrow> bool" where
  "py_isspace c =
     ((9 \<le> c \<and> c \<le> 13) \<or> (28 \<le> c \<and> c \<le> 32) \<or> c = 133 \<or> c = 160 \<or> c = 5760 \<or>
      (8192 \<le> c \<and> c \<le> 8202) \<or> c = 8232 \<or> c = 8233 \<or> c = 8239 \<or> c = 8287 \<or>
      c = 12288)"

definition py_strip :: "pystr \<Rightarrow> pystr" where
  "py_strip s = rev (dropWhile py_isspace (rev (dropWhile py_isspace s)))"

text \<open>\<open>sep.join(parts)\<close>: raises \<open>TypeError\<close> when an item is not a \<open>str\<close>.\<close>

fun as_str :: "pyval \<Rightarrow> pystr option" where
  "as_str (PStr s) = Some s"
| "as_str _ = None"

fun join_strs :: "pystr \<Rightarrow> pystr list \<Rightarrow> pystr" where
  "join_strs sep [] = []"
| "join_strs sep [s] = s"
| "join_strs sep (s # t # ss) = s @ sep @ join_strs sep (t # ss)"

definition py_join :: "pystr \<Rightarrow> pyval list \<Rightarrow> exn + pystr" where
  "py_join sep parts =
     (case those (map as_str parts) of
        None \<Rightarrow> Inl TypeError
      | Some ss \<Rightarrow> Inr (join_strs sep ss))"

text \<open>What an f-string writes for \<open>{v}\<close>.  The text of a float, a list or a dict is
  left to the parameter \<open>repr\<close>.\<close>

definition py_format :: "(pyval \<Rightarrow> pystr) \<Rightarrow> pyval \<Rightarrow> pystr" where
  "py_format repr v =
     (case v of
        PStr s \<Rightarrow> s
      | PNone \<Rightarrow> str ''None''
      | PBool b \<Rightarrow> (if b then str ''True'' else str ''False'')
      | PInt i \<Rightarrow> (if i < 0 then 45 # decimal (nat (- i)) else decimal (nat i))
      | _ \<Rightarrow> repr v)"

text \<open>A rendering for the values no example formats.\<close>

definition no_repr :: "pyval \<Rightarrow> pystr" where
  "no_repr v = str ''?''"

section \<open>vector\_store.py: the text blob and the metadata\<close>

definition fields_in_order :: "pystr list" where
  "fields_in_order = map str
     [''product_name'', ''brand_name'', ''therapeutic_class'', ''strength'',
      ''dosage_form'', ''pack_size'', ''composition'', ''indication_summary'',
      ''extracted_text'']"

text \<open>The loop over \<open>fields_in_order\<close>, with the list \<open>parts\<close> it appends to.\<close>

fun collect_parts :: "(pyval \<Rightarrow> pystr) \<Rightarrow> pydict \<Rightarrow> pystr list \<Rightarrow> pyval list \<Rightarrow> pyval list" where
  "collect_parts repr doc [] parts = parts"
| "collect_parts repr doc (k # ks) parts =
     (let v = dict_get doc k in
      collect_parts repr doc ks
        (if truthy v
         then parts @ [PStr (py_title (replace_char 95 32 k) @ str '': '' @ py_format repr v)]
         else parts))"

definition build_text_for_embedding :: "(pyval \<Rightarrow> pystr) \<Rightarrow> pydict \<Rightarrow> exn + pystr" where
  "build_text_for_embedding repr doc =
     (let parts = collect_parts repr doc fields_in_order [];
          parts = (if parts = [] then parts @ [dict_get_default doc (str ''id'') (PStr [])]
                   else parts)
      in case py_join [10] parts of
           Inl e \<Rightarrow> Inl e
         | Inr joined \<Rightarrow> Inr (take 6000 (py_strip joined)))"

text \<open>\<open>clean_metadata\<close>: the dict comprehension keeps the items with
  \<open>v is not None and v != ""\<close>.  Only a \<open>str\<close> compares equal to \<open>""\<close>.\<close>

definition clean_metadata :: "('k \<rightharpoonup> pyval) \<Rightarrow> ('k \<rightharpoonup> pyval)" where
  "clean_metadata metadata =
     (\<lambda>k. case metadata k of
            None \<Rightarrow> None
          | Some v \<Rightarrow> (if v \<noteq> PNone \<and> v \<noteq> PStr [] then Some v else None))"

section \<open>The embedding provider and the vector store\<close>

text \<open>
  The OpenAI client, the ChromaDB client and the file system are outside the three
  modules.  They are a parameter: a state \<open>'s\<close> of the outside world and, for each
  call the modules make, a function from the state before the call to the outcome and
  the state after it.  An outcome \<open>Inl m\<close> is an exception raised by the call, with
  \<open>str(e) = m\<close>.
\<close>

text \<open>The keyword arguments of \<open>collection.add\<close>.\<close>

record add_args =
  add_ids :: "pyval list"
  add_embeddings :: "real list list"
  add_metadatas :: "pydict list"
  add_documents :: "pystr list"

text \<open>The dict \<open>collection.query\<close> returns: under each key, one list per query
  embedding, or \<open>None\<close>.  A document and a metadata entry may be \<open>None\<close>.\<close>

record query_result =
  res_documents :: "pyval list list option"
  res_metadatas :: "pydict option list list option"
  res_distances :: "real list list option"

record 's services =
  embeddings_create :: "'s \<Rightarrow> pystr \<Rightarrow> pystr \<Rightarrow> (pystr + real list list) \<times> 's"
  path_exists :: "'s \<Rightarrow> pystr \<Rightarrow> bool"
  load_json :: "'s \<Rightarrow> pystr \<Rightarrow> pystr + pydict list"
  get_collection :: "'s \<Rightarrow> pystr \<Rightarrow> (pystr + unit) \<times> 's"
  create_collection :: "'s \<Rightarrow> pystr \<Rightarrow> (pystr \<times> pyval) list \<Rightarrow> (pystr + unit) \<times> 's"
  delete_collection_op :: "'s \<Rightarrow> pystr \<Rightarrow> (pystr + unit) \<times> 's"
  collection_count :: "'s \<Rightarrow> pystr \<Rightarrow> (pystr + nat) \<times> 's"
  collection_add :: "'s \<Rightarrow> pystr \<Rightarrow> add_args \<Rightarrow> (pystr + unit) \<times> 's"
  collection_query :: "'s \<Rightarrow> pystr \<Rightarrow> real list \<Rightarrow> int \<Rightarrow> (pystr + query_result) \<times> 's"

text \<open>Every call to the provider or to the store is recorded, in order.\<close>

datatype event =
    EmbeddingsCreate pystr pystr
  | GetCollection pystr
  | CreateCollection pystr "(pystr \<times> pyval) list"
  | DeleteCollection pystr
  | CollectionCount pystr
  | CollectionAdd pystr add_args
  | CollectionQuery pystr "real list" int

record 's world =
  ext :: 's
  trace :: "event list"

definition call :: "event \<Rightarrow> ('s \<Rightarrow> (pystr + 'r) \<times> 's) \<Rightarrow> 's world \<Rightarrow> (exn + 'r) \<times> 's world" where
  "call ev op w =
     (case op (ext w) of
        (r, s') \<Rightarrow>
          ((case r of Inl m \<Rightarrow> Inl (External m) | Inr x \<Rightarrow> Inr x),
           \<lparr>ext = s', trace = trace w @ [ev]\<rparr>))"

text \<open>The texts sent to the provider, the batches written and the queries issued,
  read off a trace.\<close>

fun embed_inputs :: "event list \<Rightarrow> pystr list" where
  "embed_inputs [] = []"
| "embed_inputs (EmbeddingsCreate model inp # evs) = inp # embed_inputs evs"
| "embed_inputs (_ # evs) = embed_inputs evs"


fun store_writes :: "event list \<Rightarrow> event list" where
  "store_writes [] = []"
| "store_writes (CollectionAdd name args # evs) = CollectionAdd name args # store_writes evs"
| "store_writes (CreateCollection name md # evs) = CreateCollection name md # store_writes evs"
| "store_writes (DeleteCollection name # evs) = DeleteCollection name # store_writes evs"
| "store_writes (_ # evs) = store_writes evs"


text \<open>The module-level configuration, read from the environment at import.\<close>

record config =
  EMBEDDING_MODEL :: pystr
  CHROMA_DB_PATH :: pystr
  CHROMA_COLLECTION_NAME :: pystr
  INPUT_JSON :: pystr

section \<open>vector\_store.py: ingestion\<close>

definition create_embedding ::
  "'s services \<Rightarrow> config \<Rightarrow> pystr \<Rightarrow> 's world \<Rightarrow> (exn + real list) \<times> 's world" where
  "create_embedding S cfg text w =
     (let text = (if text = [] then str '' '' else text) in
      case call (EmbeddingsCreate (EMBEDDING_MODEL cfg) text)
             (\<lambda>s. embeddings_create S s (EMBEDDING_MODEL cfg) text) w of
        (Inl e, w') \<Rightarrow> (Inl e, w')
      | (Inr data, w') \<Rightarrow>
          (case data of [] \<Rightarrow> (Inl IndexError, w') | embedding # _ \<Rightarrow> (Inr embedding, w')))"








section \<open>retriever.py\<close>

definition get_embedding ::
  "'s services \<Rightarrow> config \<Rightarrow> pystr \<Rightarrow> pystr option \<Rightarrow> 's world \<Rightarrow> (exn + real list) \<times> 's world" where
  "get_embedding S cfg text model w =
     (let model = (case model of None \<Rightarrow> EMBEDDING_MODEL cfg | Some m \<Rightarrow> m);
          text = replace_char 10 32 text
      in case call (EmbeddingsCreate model text) (\<lambda>s. embeddings_create S s model text) w of
           (Inl e, w') \<Rightarrow> (Inl e, w')
         | (Inr data, w') \<Rightarrow>
             (case data of [] \<Rightarrow> (Inl IndexError, w') | embedding # _ \<Rightarrow> (Inr embedding, w')))"

text \<open>A retrieved chunk: the dict with the keys \<open>text\<close> and \<open>similarity\<close>.\<close>

record chunk =
  chunk_text :: pyval
  chunk_similarity :: real

text \<open>
  The loop \<open>for i, doc in enumerate(documents)\<close>.  \<open>metadatas[i].get\<close> raises
  \<open>AttributeError\<close> when the entry is \<open>None\<close>.
\<close>

fun chunks_loop ::
  "nat \<Rightarrow> pyval list \<Rightarrow> pydict option list \<Rightarrow> real list \<Rightarrow> chunk list \<Rightarrow> exn + chunk list" where
  "chunks_loop i [] metadatas distances chunks = Inr chunks"
| "chunks_loop i (doc # rest) metadatas distances chunks =
     (let distance = (if i < length distances then distances ! i else 1);
          similarity = 1 - distance
      in if \<not> truthy doc \<and> metadatas \<noteq> [] \<and> i < length metadatas
         then (case metadatas ! i of
                 None \<Rightarrow> Inl AttributeError
               | Some md \<Rightarrow>
                   chunks_loop (i + 1) rest metadatas distances
                     (chunks @ [\<lparr>chunk_text = dict_get_default md (str ''text'') (PStr []),
                                 chunk_similarity = similarity\<rparr>]))
         else chunks_loop (i + 1) rest metadatas distances
                (chunks @ [\<lparr>chunk_text = doc, chunk_similarity = similarity\<rparr>]))"

text \<open>The shaping of the query result (from \<open>chunks = []\<close> to \<open>return chunks\<close>).\<close>

definition format_results :: "query_result \<Rightarrow> exn + chunk list" where
  "format_results results =
     (case res_documents results of
        Some (documents # other) \<Rightarrow>
          (let metadatas = (case res_metadatas results of
                              Some (ms # other_ms) \<Rightarrow> ms
                            | _ \<Rightarrow> replicate (length documents) (Some Map.empty));
               distances = (case res_distances results of
                              Some (ds # other_ds) \<Rightarrow> ds
                            | _ \<Rightarrow> replicate (length documents) 0)
           in chunks_loop 0 documents metadatas distances [])
      | _ \<Rightarrow> Inr [])"


section \<open>manage\_indexes.py\<close>

text \<open>\<open>delete_collection\<close> returns nothing; the model returns the lines it prints.\<close>

definition delete_collection ::
  "'s services \<Rightarrow> pystr \<Rightarrow> bool \<Rightarrow> 's world \<Rightarrow> pystr list \<times> 's world" where
  "delete_collection S collection_name confirm w =
     (if \<not> confirm
      then ([[9888, 65039] @ str ''  To delete collection '' @ [39] @ collection_name @ [39] @
               str '', run with confirm=True'',
             str ''   Example: delete_collection('' @ [39] @ collection_name @ [39] @
               str '', confirm=True)''], w)
      else (case call (DeleteCollection collection_name)
                   (\<lambda>s. delete_collection_op S s collection_name) w of
              (Inr u, w') \<Rightarrow>
                ([[9989] @ str '' Collection '' @ [39] @ collection_name @ [39] @
                    str '' deleted successfully!''], w')
            | (Inl e, w') \<Rightarrow>
                ([[10060] @ str '' Error deleting collection: '' @
                    exn_str e], w')))"

section \<open>Reference notions and example environments\<close>

text \<open>
  Fixed-size batches in input order, as the specification words it: the first \<open>n\<close>
  items, then the next \<open>n\<close>, and so on, the last batch holding what is left.
\<close>

function fixed_size_batches :: "nat \<Rightarrow> 'a list \<Rightarrow> 'a list list" where
  "fixed_size_batches n xs =
     (if n = 0 \<or> xs = [] then [] else take n xs # fixed_size_batches n (drop n xs))"
  by pat_completeness auto
termination
  by (relation "measure (\<lambda>(n, xs). length xs)") auto

text \<open>The configuration the modules fall back to when the environment sets nothing.\<close>

definition default_config :: config where
  "default_config =
     \<lparr>EMBEDDING_MODEL = str ''text-embedding-3-small'',
      CHROMA_DB_PATH = str ''./chroma_db'',
      CHROMA_COLLECTION_NAME = str ''medical-vectors'',
      INPUT_JSON = str ''new_data.json''\<rparr>"

text \<open>A query result with three ranked items.\<close>

definition three_results :: query_result where
  "three_results =
     \<lparr>res_documents = Some [[PStr (str ''alpha''), PStr (str ''beta''), PStr (str ''gamma'')]],
      res_metadatas = Some [[None, None, None]],
      res_distances = Some [[0, 1 / 10, 1 / 2]]\<rparr>"

text \<open>
  An outside world without state in which every call succeeds: the input file holds
  \<open>docs\<close>, every embedding is the same vector and every query returns
  \<open>three_results\<close>.
\<close>

definition working_services :: "pydict list \<Rightarrow> unit services" where
  "working_services docs =
     \<lparr>embeddings_create = (\<lambda>s model inp. (Inr [[1, 0]], s)),
      path_exists = (\<lambda>s p. True),
      load_json = (\<lambda>s p. Inr docs),
      get_collection = (\<lambda>s name. (Inr (), s)),
      create_collection = (\<lambda>s name md. (Inr (), s)),
      delete_collection_op = (\<lambda>s name. (Inr (), s)),
      collection_count = (\<lambda>s name. (Inr 0, s)),
      collection_add = (\<lambda>s name args. (Inr (), s)),
      collection_query = (\<lambda>s name qe n. (Inr three_results, s))\<rparr>"



definition start :: "unit world" where
  "start = \<lparr>ext = (), trace = []\<rparr>"

text \<open>Example records and an example metadata dict.\<close>

definition padded_id_record :: pydict where
  "padded_id_record = map_of [(str ''id'', PStr (str '' a''))]"

definition plain_id_record :: pydict where
  "plain_id_record = map_of [(str ''id'', PStr (str ''P-17''))]"

definition sample_record :: pydict where
  "sample_record =
     map_of [(str ''id'', PStr (str ''p1'')),
             (str ''product_name'', PStr (str ''Aspirin'')),
             (str ''strength'', PInt 500)]"

text \<open>A record whose text is longer than the cap: a product name of 7000 letters.\<close>

definition long_name_record :: pydict where
  "long_name_record = map_of [(str ''product_name'', PStr (replicate 7000 120))]"


definition sample_metadata :: pydict where
  "sample_metadata =
     map_of [(str ''count'', PInt 0), (str ''flag'', PBool False), (str ''ratio'', PFloat 0),
             (str ''note'', PStr []), (str ''missing'', PNone),
             (str ''title'', PStr (str ''Aspirin''))]"

section \<open>Properties of the text blob\<close>

lemma collect_parts_eq:
  "collect_parts repr doc ks parts =
     parts @ map (\<lambda>k. PStr (py_title (replace_char 95 32 k) @ str '': '' @
                          py_format repr (dict_get doc k)))
               (filter (\<lambda>k. truthy (dict_get doc k)) ks)"
  by (induction ks arbitrary: parts) (simp_all add: Let_def)

lemma those_as_str_PStr: "those (map as_str (map PStr ss)) = Some ss"
  by (induction ss) simp_all

lemma py_join_strs: "py_join sep (map PStr ss) = Inr (join_strs sep ss)"
  unfolding py_join_def by (simp only: those_as_str_PStr option.case)

text \<open>The field labels the f-string produces.\<close>

lemma field_labels:
  "map (\<lambda>k. py_title (replace_char 95 32 k)) fields_in_order = map str
     [''Product Name'', ''Brand Name'', ''Therapeutic Class'', ''Strength'', ''Dosage Form'',
      ''Pack Size'', ''Composition'', ''Indication Summary'', ''Extracted Text'']"
  by (simp add: fields_in_order_def str_def py_title_def replace_char_def is_cased_def
      to_upper_def to_lower_def)

text \<open>\<open>build_text_for_embedding\<close> returns a text as soon as one listed field is truthy.\<close>

lemma build_text_fields:
  assumes "\<exists>k\<in>set fields_in_order. truthy (dict_get doc k)"
  shows "\<exists>t. build_text_for_embedding repr doc = Inr t"
proof -
  let ?ls = "map (\<lambda>k. py_title (replace_char 95 32 k) @ str '': '' @
                       py_format repr (dict_get doc k))
               (filter (\<lambda>k. truthy (dict_get doc k)) fields_in_order)"
  have "collect_parts repr doc fields_in_order [] = map PStr ?ls"
    by (simp add: collect_parts_eq)
  moreover have "?ls \<noteq> []" using assms by (auto simp: filter_empty_conv)
  ultimately show ?thesis
    by (simp add: build_text_for_embedding_def Let_def py_join_strs del: map_map)
qed

text \<open>Without a truthy field the outcome is decided by the \<open>id\<close> entry: a \<open>str\<close> is
  stripped and cut, anything else makes \<open>join\<close> raise.\<close>

lemma build_text_id:
  assumes "\<forall>k\<in>set fields_in_order. \<not> truthy (dict_get doc k)"
  shows "build_text_for_embedding repr doc =
     (case doc (str ''id'') of
        None \<Rightarrow> Inr []
      | Some (PStr s) \<Rightarrow> Inr (take 6000 (py_strip s))
      | Some _ \<Rightarrow> Inl TypeError)"
proof -
  have "collect_parts repr doc fields_in_order [] = []"
    using assms by (simp add: collect_parts_eq filter_empty_conv)
  then show ?thesis
    by (simp add: build_text_for_embedding_def Let_def py_join_def dict_get_default_def
        py_strip_def split: option.splits pyval.splits)
qed

lemma padded_id_record_no_fields:
  "\<forall>k\<in>set fields_in_order. \<not> truthy (dict_get padded_id_record k)"
  by (simp add: fields_in_order_def str_def dict_get_def padded_id_record_def)

lemma plain_id_record_no_fields:
  "\<forall>k\<in>set fields_in_order. \<not> truthy (dict_get plain_id_record k)"
  by (simp add: fields_in_order_def str_def dict_get_def plain_id_record_def)

lemma sample_record_text:
  "build_text_for_embedding no_repr sample_record =
     Inr (str ''Product Name: Aspirin\<newline>Strength: 500'')"
  by (simp add: build_text_for_embedding_def sample_record_def fields_in_order_def str_def
      dict_get_def dict_get_default_def py_join_def py_strip_def py_isspace_def Let_def
      py_title_def replace_char_def is_cased_def to_upper_def to_lower_def py_format_def)

text \<open>\<open>strip\<close> leaves a text alone that neither starts nor ends with whitespace.\<close>

lemma py_strip_noop:
  assumes "s \<noteq> []" "\<not> py_isspace (hd s)" "\<not> py_isspace (last s)"
  shows "py_strip s = s"
proof -
  from assms(1,2) have a: "dropWhile py_isspace s = s" by (cases s) simp_all
  from assms(1) obtain ys y where s: "s = ys @ [y]" by (metis rev_exhaust)
  with assms(3) have "\<not> py_isspace y" by simp
  then have "dropWhile py_isspace (rev s) = rev s" unfolding s by simp
  with a show ?thesis by (simp add: py_strip_def)
qed

lemma long_name_record_text:
  "build_text_for_embedding no_repr long_name_record =
     Inr (str ''Product Name: '' @ replicate 5986 120)"
proof -
  let ?s = "str ''Product Name: '' @ replicate 7000 120"
  have parts: "collect_parts no_repr long_name_record fields_in_order [] = [PStr ?s]"
    by (simp add: long_name_record_def fields_in_order_def str_def dict_get_def Let_def
      py_title_def replace_char_def is_cased_def to_upper_def to_lower_def py_format_def)
  have "py_strip ?s = ?s"
    by (rule py_strip_noop) (simp_all add: str_def py_isspace_def)
  moreover have "take 6000 ?s = str ''Product Name: '' @ replicate 5986 120"
    by (simp add: str_def)
  ultimately show ?thesis
    by (simp add: build_text_for_embedding_def parts py_join_def Let_def del: replicate_Suc)
qed

text \<open>
  Claim C4, as amended.  For a record in which none of the nine listed fields is present
  and truthy, \<open>build_text_for_embedding\<close> returns the empty string when the \<open>id\<close>
  attribute is absent, and for a string \<open>id\<close> it returns that id with leading and
  trailing whitespace stripped and cut to 6000 characters; this is the id itself when
  the id has no surrounding whitespace and at most 6000 characters.
\<close>

theorem build_text_fallback_id:
  assumes "\<forall>k\<in>set fields_in_order. \<not> truthy (dict_get doc k)"
  shows "(doc (str ''id'') = None \<longrightarrow> build_text_for_embedding repr doc = Inr []) \<and>
         (\<forall>s. doc (str ''id'') = Some (PStr s) \<longrightarrow>
              build_text_for_embedding repr doc = Inr (take 6000 (py_strip s))) \<and>
         (\<forall>s. doc (str ''id'') = Some (PStr s) \<and> py_strip s = s \<and> length s \<le> 6000 \<longrightarrow>
              build_text_for_embedding repr doc = Inr s)"
  using build_text_id [OF assms, of repr] by (auto split: option.splits)

theorem build_text_fallback_id_witness:
  "build_text_for_embedding no_repr padded_id_record = Inr (str ''a'') \<and>
   build_text_for_embedding no_repr plain_id_record = Inr (str ''P-17'') \<and>
   build_text_for_embedding no_repr (map_of []) = Inr []"
proof -
  have e: "\<forall>k\<in>set fields_in_order. \<not> truthy (dict_get (map_of []) k)"
    by (simp add: dict_get_def)
  have a: "padded_id_record (str ''id'') = Some (PStr (str '' a''))"
    by (simp add: padded_id_record_def)
  have b: "plain_id_record (str ''id'') = Some (PStr (str ''P-17''))"
    by (simp add: plain_id_record_def)
  have c: "py_strip (str ''P-17'') = str ''P-17''" "py_strip (str '' a'') = str ''a''"
    by (simp_all add: py_strip_def py_isspace_def str_def)
  show ?thesis
    using build_text_fallback_id [OF padded_id_record_no_fields, of no_repr]
      build_text_fallback_id [OF plain_id_record_no_fields, of no_repr]
      build_text_fallback_id [OF e, of no_repr] a b c
    by (simp add: str_def)
qed

text \<open>
  Claim C4 as stated fails: the record \<open>{"id": " a"}\<close> has no listed field, its id value
  is \<open>" a"\<close>, and the text returned is \<open>"a"\<close>.
\<close>

theorem build_text_fallback_id_counterexample:
  "filter (truthy \<circ> dict_get padded_id_record) fields_in_order = [] \<and>
   padded_id_record (str ''id'') = Some (PStr (str '' a'')) \<and>
   build_text_for_embedding no_repr padded_id_record = Inr (str ''a'') \<and>
   build_text_for_embedding no_repr padded_id_record \<noteq> Inr (str '' a'')"
  by (simp add: build_text_for_embedding_def fields_in_order_def str_def dict_get_def
      dict_get_default_def py_join_def py_strip_def py_isspace_def Let_def
      padded_id_record_def)

text \<open>
  Claim C8.  For every record, the text \<open>build_text_for_embedding\<close> returns has at most
  6000 characters.
\<close>

theorem build_text_length:
  "build_text_for_embedding repr doc = Inr t \<Longrightarrow> length t \<le> 6000"
  by (auto simp: build_text_for_embedding_def Let_def split: sum.splits)

theorem build_text_length_witness:
  "build_text_for_embedding no_repr sample_record =
     Inr (str ''Product Name: Aspirin\<newline>Strength: 500'') \<and>
   length (str ''Product Name: Aspirin\<newline>Strength: 500'') \<le> 6000 \<and>
   build_text_for_embedding no_repr long_name_record =
     Inr (str ''Product Name: '' @ replicate 5986 120) \<and>
   length (str ''Product Name: '' @ replicate 5986 120) \<le> 6000"
  using build_text_length [OF sample_record_text] sample_record_text
    build_text_length [OF long_name_record_text] long_name_record_text
  by simp

section \<open>Properties of the metadata sanitizer\<close>

text \<open>
  Claim C7.  For every metadata dict, the dict \<open>clean_metadata\<close> returns has no entry
  whose value is \<open>None\<close> and no entry whose value is the empty string.
\<close>

theorem clean_metadata_no_null_or_empty:
  "clean_metadata m k \<noteq> Some PNone \<and> clean_metadata m k \<noteq> Some (PStr []) \<and>
   PNone \<notin> ran (clean_metadata m) \<and> PStr [] \<notin> ran (clean_metadata m)"
  by (auto simp add: clean_metadata_def ran_def split: option.splits if_splits)

text \<open>
  Claim C9.  \<open>clean_metadata\<close> is idempotent.
\<close>

theorem clean_metadata_idempotent:
  "clean_metadata (clean_metadata m) = clean_metadata m"
  by (rule ext) (simp add: clean_metadata_def split: option.splits)

text \<open>
  Claim C10.  \<open>clean_metadata\<close> removes exactly the entries whose value is \<open>None\<close> or
  the empty string: every other entry of the input is in the output under the same key
  with the same value (the falsy values \<open>0\<close>, \<open>False\<close> and \<open>0.0\<close> among them), and
  the output has no entry the input does not have.
\<close>

theorem clean_metadata_keeps_others:
  "(m k = Some v \<and> v \<noteq> PNone \<and> v \<noteq> PStr [] \<longrightarrow> clean_metadata m k = Some v) \<and>
   (clean_metadata m k = Some v \<longrightarrow> m k = Some v \<and> v \<noteq> PNone \<and> v \<noteq> PStr []) \<and>
   (m k = Some PNone \<or> m k = Some (PStr []) \<or> m k = None \<longrightarrow> clean_metadata m k = None) \<and>
   (m k = Some (PInt 0) \<longrightarrow> clean_metadata m k = Some (PInt 0)) \<and>
   (m k = Some (PBool False) \<longrightarrow> clean_metadata m k = Some (PBool False)) \<and>
   (m k = Some (PFloat 0) \<longrightarrow> clean_metadata m k = Some (PFloat 0))"
  by (auto simp add: clean_metadata_def split: option.splits if_splits)

theorem clean_metadata_keeps_others_witness:
  "clean_metadata sample_metadata (str ''count'') = Some (PInt 0) \<and>
   clean_metadata sample_metadata (str ''flag'') = Some (PBool False) \<and>
   clean_metadata sample_metadata (str ''ratio'') = Some (PFloat 0) \<and>
   clean_metadata sample_metadata (str ''title'') = Some (PStr (str ''Aspirin'')) \<and>
   clean_metadata sample_metadata (str ''note'') = None \<and>
   clean_metadata sample_metadata (str ''missing'') = None \<and>
   clean_metadata sample_metadata (str ''absent'') = None"
  using clean_metadata_keeps_others [of sample_metadata "str ''count''" "PInt 0"]
    clean_metadata_keeps_others [of sample_metadata "str ''flag''" "PBool False"]
    clean_metadata_keeps_others [of sample_metadata "str ''ratio''" "PFloat 0"]
    clean_metadata_keeps_others [of sample_metadata "str ''title''" "PStr (str ''Aspirin'')"]
    clean_metadata_keeps_others [of sample_metadata "str ''note''" "PNone"]
    clean_metadata_keeps_others [of sample_metadata "str ''missing''" "PNone"]
    clean_metadata_keeps_others [of sample_metadata "str ''absent''" "PNone"]
  by (simp add: sample_metadata_def str_def)

section \<open>Calls to the provider and the store\<close>


lemma create_embedding_trace:
  "trace (snd (create_embedding S cfg t w)) =
     trace w @ [EmbeddingsCreate (EMBEDDING_MODEL cfg) (if t = [] then str '' '' else t)]"
  by (simp add: create_embedding_def Let_def call_def split: prod.splits sum.splits list.splits)

lemma get_embedding_trace:
  "trace (snd (get_embedding S cfg t model w)) =
     trace w @ [EmbeddingsCreate (case model of None \<Rightarrow> EMBEDDING_MODEL cfg | Some m \<Rightarrow> m)
                  (replace_char 10 32 t)]"
  by (simp add: get_embedding_def Let_def call_def split: prod.splits sum.splits list.splits)




section \<open>The text sent to the embedding provider\<close>

text \<open>
  Claim C1, as amended.  The ingestion-side function \<open>create_embedding\<close> issues one
  provider call; its input is the single-space placeholder when the text is empty and
  the text unchanged otherwise, so it is never empty.  The retrieval-side function
  \<open>get_embedding\<close> issues one provider call whose input is the text with every newline
  character replaced by a space.
\<close>

theorem embedding_input_normalisation:
  "trace (snd (create_embedding S cfg t w)) =
     trace w @ [EmbeddingsCreate (EMBEDDING_MODEL cfg) (if t = [] then str '' '' else t)] \<and>
   (if t = [] then str '' '' else t) \<noteq> [] \<and>
   (\<exists>sent. trace (snd (get_embedding S cfg t None w)) =
       trace w @ [EmbeddingsCreate (EMBEDDING_MODEL cfg) sent] \<and>
       length sent = length t \<and> 10 \<notin> set sent \<and>
       (\<forall>i<length t. sent ! i = (if t ! i = 10 then 32 else t ! i)))"
proof -
  have "length (replace_char 10 32 t) = length t \<and> 10 \<notin> set (replace_char 10 32 t) \<and>
       (\<forall>i<length t. replace_char 10 32 t ! i = (if t ! i = 10 then 32 else t ! i))"
    by (auto simp: replace_char_def)
  then show ?thesis
    using create_embedding_trace [of S cfg t w] get_embedding_trace [of S cfg t None w]
    by (auto simp: str_def)
qed

theorem embedding_input_normalisation_witness:
  "trace (snd (create_embedding (working_services []) default_config [] start)) =
     [EmbeddingsCreate (str ''text-embedding-3-small'') (str '' '')] \<and>
   trace (snd (get_embedding (working_services []) default_config (str ''a\<newline>b'') None start)) =
     [EmbeddingsCreate (str ''text-embedding-3-small'') (str ''a b'')]"
  using embedding_input_normalisation [of "working_services []" default_config "[]" start]
    embedding_input_normalisation [of "working_services []" default_config "str ''a\<newline>b''" start]
  by (simp add: create_embedding_def get_embedding_def call_def working_services_def
      default_config_def start_def replace_char_def str_def Let_def)

text \<open>
  Claim C1 as stated fails on both sides: \<open>create_embedding\<close> sends the newline of
  \<open>"a\nb"\<close> and the whitespace-only text \<open>"  "\<close> as they are, and \<open>get_embedding\<close>
  sends the empty text as it is.
\<close>

theorem embedding_input_normalisation_counterexample:
  "embed_inputs (trace (snd (create_embedding (working_services []) default_config
      (str ''a\<newline>b'') start))) = [[97, 10, 98]] \<and>
   embed_inputs (trace (snd (create_embedding (working_services []) default_config
      (str ''  '') start))) = [[32, 32]] \<and>
   embed_inputs (trace (snd (get_embedding (working_services []) default_config
      [] None start))) = [[]]"
  by (simp add: create_embedding_def get_embedding_def call_def working_services_def
      default_config_def start_def replace_char_def str_def Let_def)

section \<open>Deleting a collection\<close>

text \<open>
  Claim C6.  \<open>delete_collection\<close> with \<open>confirm = False\<close> prints the two lines that ask
  for confirmation and leaves the outside world as it was: no call is made to the
  store, so neither its state nor any item count changes.  With \<open>confirm = True\<close> it
  makes exactly one call, the store's \<open>delete_collection\<close> for that name, and the store
  is in the state that call leaves.
\<close>

theorem delete_collection_confirmation:
  "delete_collection S collection_name False w =
     ([[9888, 65039] @ str ''  To delete collection '' @ [39] @ collection_name @ [39] @
         str '', run with confirm=True'',
       str ''   Example: delete_collection('' @ [39] @ collection_name @ [39] @
         str '', confirm=True)''], w) \<and>
   store_writes (trace (snd (delete_collection S collection_name False w))) =
     store_writes (trace w) \<and>
   collection_count S (ext (snd (delete_collection S collection_name False w))) collection_name =
     collection_count S (ext w) collection_name \<and>
   snd (delete_collection S collection_name True w) =
     \<lparr>ext = snd (delete_collection_op S (ext w) collection_name),
      trace = trace w @ [DeleteCollection collection_name]\<rparr>"
  by (simp add: delete_collection_def call_def split: prod.splits sum.splits)

section \<open>Retrieval from a missing collection\<close>





section \<open>Similarity of the retrieved chunks\<close>


lemma chunks_loop_total:
  "\<forall>d\<in>set docs. truthy d \<Longrightarrow> \<exists>out. chunks_loop i docs metadatas distances chunks = Inr out"
  by (induction docs arbitrary: i chunks) (simp_all add: Let_def)

text \<open>The shaping returns chunks whenever every document of the result is a non-empty
  text.\<close>

lemma format_results_total:
  assumes "\<forall>documents other_docs. res_documents results = Some (documents # other_docs) \<longrightarrow>
             (\<forall>d\<in>set documents. truthy d)"
  shows "\<exists>chunks. format_results results = Inr chunks"
proof (cases "res_documents results")
  case None
  then show ?thesis by (simp add: format_results_def)
next
  case (Some dss)
  show ?thesis
  proof (cases dss)
    case Nil
    with Some show ?thesis by (simp add: format_results_def)
  next
    case (Cons ds rest)
    with Some assms have "\<forall>d\<in>set ds. truthy d" by simp
    from chunks_loop_total [OF this] Some Cons show ?thesis
      by (simp add: format_results_def Let_def)
  qed
qed








section \<open>Batches written by ingestion\<close>

declare fixed_size_batches.simps [simp del]

lemma fixed_size_batches_Nil: "fixed_size_batches n [] = []"
  by (simp add: fixed_size_batches.simps)

lemma fixed_size_batches_step:
  "0 < n \<Longrightarrow> xs \<noteq> [] \<Longrightarrow> fixed_size_batches n xs = take n xs # fixed_size_batches n (drop n xs)"
  by (subst fixed_size_batches.simps) simp



lemma length_fixed_size_batches:
  "0 < n \<Longrightarrow> length (fixed_size_batches n xs) = (length xs + n - 1) div n"
proof (induction n xs rule: fixed_size_batches.induct)
  case (1 n xs)
  show ?case
  proof (cases "xs = []")
    case True
    with 1(2) show ?thesis by (simp add: fixed_size_batches_Nil)
  next
    case False
    note IH = 1(1) [OF _ 1(2)]
    show ?thesis
    proof (cases "length xs \<le> n")
      case True
      with False 1(2) have "(length xs + n - 1) div n = 1"
        by (cases xs) (simp_all add: div_eq_dividend_iff div_nat_eqI)
      with True False 1(2) show ?thesis
        by (simp add: fixed_size_batches_step fixed_size_batches_Nil)
    next
      case ge: False
      then have "(length xs + n - 1) div n = Suc ((length xs - n + n - 1) div n)"
        using 1(2) by (simp add: le_div_geq)
      with False 1(2) ge IH show ?thesis
        by (simp add: fixed_size_batches_step)
    qed
  qed
qed



















end
